theory Spec2Isabelle
  imports Main "HOL-Library.Sublist"
begin

section \<open>The request layer of the bash language server\<close>

text \<open>
  This theory embeds \<^verbatim>\<open>src/server/src/server.ts\<close>: the class \<^verbatim>\<open>BashServer\<close>, which
  glues the Analyzer, the builtin and reserved-word tables, the PATH executables and the
  explainshell lookup to the Language Server Protocol.

  Conventions of the embedding:
  \<^item> a JavaScript string is a \<open>string\<close>; \<^verbatim>\<open>string | null\<close> is \<open>string option\<close>;
  \<^item> a promise is the outcome it settles with: \<open>Inl e\<close> when it rejects with \<open>e\<close> (a
    synchronous throw inside an \<^verbatim>\<open>async\<close> function is the same rejection), \<open>Inr v\<close> when
    it resolves with \<open>v\<close>;
  \<^item> what a handler does to the outside (console lines, diagnostics sent, the call of
    \<^verbatim>\<open>analyze\<close>) is returned as a list of events, in program order;
  \<^item> a variable whose name is also the name of a field is written with a prime
    (\<open>uri'\<close>, \<open>connection'\<close>);
  \<^item> the collaborators whose code is in other modules (\<^verbatim>\<open>analyser\<close>, \<^verbatim>\<open>builtins\<close>,
    \<^verbatim>\<open>reservedWords\<close>, \<^verbatim>\<open>executables\<close>, \<^verbatim>\<open>config\<close>, \<^verbatim>\<open>parser\<close>, the turndown library) are
    parameters: records of the functions that \<^verbatim>\<open>server.ts\<close> calls. The synchronous ones
    are total functions, as the specification gives them (absence is an empty result or
    null, never an error).
\<close>

subsection \<open>Protocol data\<close>

record position =
  line :: nat
  character :: nat

type_synonym range = "position \<times> position"

text \<open>\<^verbatim>\<open>TextDocumentIdentifier\<close>; a full \<^verbatim>\<open>TextDocument\<close> extends it with its content.\<close>

record text_document =
  uri :: string

text \<open>\<^verbatim>\<open>LSP.TextDocumentPositionParams\<close> (and \<^verbatim>\<open>LSP.ReferenceParams\<close>, which extends it).\<close>

record text_document_position_params =
  textDocument :: text_document
  position :: position

text \<open>\<^verbatim>\<open>TextDocumentChangeEvent\<close>: the argument of the content-change callback.\<close>

record 'd text_document_change_event =
  document :: "'d text_document_scheme"

record markup_content =
  kind :: string
  "value" :: string

record hover =
  contents :: markup_content

text \<open>An occurrence as \<^verbatim>\<open>findOccurrences\<close> returns it: a range and whatever else it carries.\<close>

record occurrence =
  range :: range

text \<open>\<^verbatim>\<open>LSP.DocumentHighlight\<close>: a range and an optional highlight kind.\<close>

record document_highlight =
  range :: range
  kind :: "nat option"

text \<open>
  Modelled from the spec: \<^verbatim>\<open>CompletionItemDataType\<close> is declared in \<^verbatim>\<open>types.ts\<close>, which is
  not among the sources. The specification names the four origins of a completion
  candidate (symbols, reserved words, builtins, executables), told apart by a
  discriminator.
\<close>

datatype CompletionItemDataType = Builtin | Executable | ReservedWord | Symbol

record completion_item_data =
  name :: string
  type :: CompletionItemDataType

text \<open>
  Modelled from the spec: \<^verbatim>\<open>BashCompletionItem\<close> is declared in \<^verbatim>\<open>types.ts\<close>, which is not
  among the sources: an \<^verbatim>\<open>LSP.CompletionItem\<close> whose \<^verbatim>\<open>data\<close> carries name and type. The
  fields are those \<^verbatim>\<open>server.ts\<close> reads and writes.
\<close>

record BashCompletionItem =
  label :: string
  kind :: nat
  data :: completion_item_data
  documentation :: "markup_content option"

text \<open>
  \<^verbatim>\<open>LSP.SymbolInformation\<close> (a name, a symbol kind and a location),
  \<^verbatim>\<open>LSP.DocumentSymbolParams\<close> (the document) and \<^verbatim>\<open>LSP.WorkspaceSymbolParams\<close> (the
  query).
\<close>

datatype 'l symbol_information = SymbolInformation string nat 'l

datatype document_symbol_params = DocumentSymbolParams text_document

datatype workspace_symbol_params = WorkspaceSymbolParams string

text \<open>The two members of \<^verbatim>\<open>LSP.SymbolKind\<close> that the server uses.\<close>

definition SymbolKind_Interface :: nat where
  "SymbolKind_Interface = 11"

definition SymbolKind_Function :: nat where
  "SymbolKind_Function = 12"

subsection \<open>Promises, errors and events\<close>

datatype error = Error string

type_synonym 'a promise = "error + 'a"

text \<open>\<^verbatim>\<open>p.then(f)\<close> for a function \<open>f\<close> that does not throw.\<close>

definition promise_then :: "'a promise \<Rightarrow> ('a \<Rightarrow> 'b) \<Rightarrow> 'b promise" where
  "promise_then p f = (case p of Inl e \<Rightarrow> Inl e | Inr x \<Rightarrow> Inr (f x))"

text \<open>\<^verbatim>\<open>try { return await p } catch (error) { return h(error) }\<close> in an async function.\<close>

definition try_catch :: "'a promise \<Rightarrow> (error \<Rightarrow> 'a promise) \<Rightarrow> 'a promise" where
  "try_catch p h = (case p of Inl e \<Rightarrow> h e | Inr x \<Rightarrow> Inr x)"

text \<open>
  \<^verbatim>\<open>Promise.all([p, q])\<close>: resolves with both values when both resolve, rejects with the
  rejection that happens first otherwise. Which of two rejections happens first is not
  decided by the program; it is a parameter.
\<close>

datatype settle_order = FirstSettlesFirst | SecondSettlesFirst

definition Promise_all :: "settle_order \<Rightarrow> 'a promise \<Rightarrow> 'b promise \<Rightarrow> ('a \<times> 'b) promise" where
  "Promise_all ord p q =
     (case p of
        Inr x \<Rightarrow> (case q of Inr y \<Rightarrow> Inr (x, y) | Inl e \<Rightarrow> Inl e)
      | Inl e \<Rightarrow> (case q of
                   Inr y \<Rightarrow> Inl e
                 | Inl e' \<Rightarrow> (case ord of FirstSettlesFirst \<Rightarrow> Inl e | SecondSettlesFirst \<Rightarrow> Inl e')))"

text \<open>A connection to the client is an object; the model refers to it by an identifier.\<close>

type_synonym conn = nat

datatype ('d, 'g) event =
    ConsoleLog conn string
  | Analyze string "'d text_document_scheme"
  | SendDiagnostics conn string "'g list"

text \<open>JavaScript truthiness of a \<^verbatim>\<open>string | null\<close>: neither null nor the empty string.\<close>

fun truthy :: "string option \<Rightarrow> bool" where
  "truthy None = False"
| "truthy (Some s) = (s \<noteq> [])"

text \<open>\<^verbatim>\<open>String.prototype.startsWith\<close> with one argument.\<close>

definition startsWith :: "string \<Rightarrow> string \<Rightarrow> bool" where
  "startsWith s w = (take (length w) s = w)"

text \<open>\<^verbatim>\<open>Array.prototype.join\<close> on an array of strings.\<close>

fun join :: "string list \<Rightarrow> string \<Rightarrow> string" where
  "join [] sep = []"
| "join [x] sep = x"
| "join (x # y # ys) sep = x @ sep @ join (y # ys) sep"

text \<open>The decimal rendering of a non-negative integer, as a template literal prints it.\<close>

function string_of_nat :: "nat \<Rightarrow> string" where
  "string_of_nat n =
     (if n < 10 then [char_of (48 + n)]
      else string_of_nat (n div 10) @ [char_of (48 + n mod 10)])"
  by pat_completeness auto
termination
  by (relation "measure id") auto

declare string_of_nat.simps [simp del]

subsection \<open>The collaborators\<close>

text \<open>
  An \<^verbatim>\<open>Executables\<close> object, as \<^verbatim>\<open>Executables.fromPath\<close> returns it. The server calls
  \<^verbatim>\<open>isExecutableOnPATH\<close> with the cursor word, which may be null.
\<close>

record executables =
  list :: "string list"
  isExecutableOnPATH :: "string option \<Rightarrow> bool"
  documentation :: "string option \<Rightarrow> string promise"

text \<open>What \<^verbatim>\<open>getExplainshellDocumentation\<close> resolves with.\<close>

record explainshell_response =
  status :: string
  helpHTML :: string

text \<open>
  The methods of the \<^verbatim>\<open>Analyzer\<close> that the server calls, as functions of the analyzer's
  state \<open>'a\<close>. Only \<^verbatim>\<open>analyze\<close> changes the state.
\<close>

record ('a, 'd, 'g, 'l, 'o) Analyzer =
  analyze :: "'a \<Rightarrow> string \<Rightarrow> 'd text_document_scheme \<Rightarrow> 'g list \<times> 'a"
  wordAtPoint :: "'a \<Rightarrow> string \<Rightarrow> nat \<Rightarrow> nat \<Rightarrow> string option"
  findDefinition :: "'a \<Rightarrow> string option \<Rightarrow> 'l list"
  findReferences :: "'a \<Rightarrow> string option \<Rightarrow> 'l list"
  findSymbols :: "'a \<Rightarrow> string \<Rightarrow> 'l symbol_information list"
  search :: "'a \<Rightarrow> string \<Rightarrow> 'l symbol_information list"
  findOccurrences :: "'a \<Rightarrow> string \<Rightarrow> string option \<Rightarrow> 'o occurrence_scheme list"
  findSymbolCompletions :: "'a \<Rightarrow> string \<Rightarrow> BashCompletionItem list"
  getExplainshellDocumentation ::
    "'a \<Rightarrow> text_document_position_params \<Rightarrow> string \<Rightarrow> explainshell_response promise"

text \<open>
  The modules \<^verbatim>\<open>Builtins\<close>, \<^verbatim>\<open>ReservedWords\<close> and \<^verbatim>\<open>config\<close>, the turndown service,
  \<^verbatim>\<open>JSON.stringify\<close> on a response, and the text a template literal prints for a
  \<^verbatim>\<open>CompletionItemDataType\<close>.
\<close>

record env =
  Builtins_LIST :: "string list"
  Builtins_isBuiltin :: "string option \<Rightarrow> bool"
  Builtins_documentation :: "string option \<Rightarrow> string promise"
  ReservedWords_LIST :: "string list"
  ReservedWords_isReservedWord :: "string option \<Rightarrow> bool"
  ReservedWords_documentation :: "string option \<Rightarrow> string promise"
  getExplainshellEndpoint :: "string option"
  getHighlightParsingError :: bool
  turndown :: "string \<Rightarrow> string"
  JSON_stringify :: "explainshell_response \<Rightarrow> string"
  type_to_string :: "CompletionItemDataType \<Rightarrow> string"

text \<open>
  What \<^verbatim>\<open>BashServer.initialize\<close> calls: the grammar initialisation, the PATH scan (on
  \<^verbatim>\<open>process.env.PATH\<close>, which may be undefined) and the workspace scan, each with the
  outcome of its promise, and the order in which the two scans settle.
\<close>

record ('p, 'a) startup =
  initializeParser :: "'p promise"
  PATH :: "string option"
  Executables_fromPath :: "string option \<Rightarrow> executables promise"
  Analyzer_fromRoot :: "conn \<Rightarrow> string option \<Rightarrow> 'p \<Rightarrow> 'a promise"
  scans_settle :: settle_order

subsection \<open>BashServer\<close>

text \<open>
  The fields of a \<^verbatim>\<open>BashServer\<close>. (The \<^verbatim>\<open>documents\<close> manager is the source of the
  content-change events and holds nothing the handlers below read.)
\<close>

record 'a BashServer =
  executables :: executables
  analyzer :: 'a
  connection :: conn

text \<open>The private constructor.\<close>

definition new_BashServer :: "conn \<Rightarrow> executables \<Rightarrow> 'a \<Rightarrow> 'a BashServer" where
  "new_BashServer connection' executables' analyzer' =
     \<lparr>executables = executables', analyzer = analyzer', connection = connection'\<rparr>"

text \<open>
  The steps of \<^verbatim>\<open>initialize\<close> that the outside can observe, in program order: the three
  calls and the construction of the server.
\<close>

datatype init_step = Call_initializeParser | Call_fromPath | Call_fromRoot | Construct_BashServer

definition initialize ::
  "('p, 'a) startup \<Rightarrow> conn \<Rightarrow> string option \<Rightarrow> 'a BashServer promise \<times> init_step list" where
  "initialize S connection' rootPath =
     (case initializeParser S of
        Inl e \<Rightarrow> (Inl e, [Call_initializeParser])
      | Inr parser \<Rightarrow>
          (case Promise_all (scans_settle S)
                  (Executables_fromPath S (PATH S))
                  (Analyzer_fromRoot S connection' rootPath parser) of
             Inl e \<Rightarrow> (Inl e, [Call_initializeParser, Call_fromPath, Call_fromRoot])
           | Inr xs \<Rightarrow>
               (Inr (new_BashServer connection' (fst xs) (snd xs)),
                [Call_initializeParser, Call_fromPath, Call_fromRoot, Construct_BashServer])))"

text \<open>
  The callback that \<^verbatim>\<open>register(connection)\<close> passes to \<^verbatim>\<open>documents.onDidChangeContent\<close>.
  It sends on the \<^verbatim>\<open>connection\<close> that \<^verbatim>\<open>register\<close> was called with.
\<close>

definition onDidChangeContent ::
  "env \<Rightarrow> ('a, 'd, 'g, 'l, 'o) Analyzer \<Rightarrow> 'a BashServer \<Rightarrow> conn \<Rightarrow>
   'd text_document_change_event \<Rightarrow> 'a BashServer \<times> ('d, 'g) event list" where
  "onDidChangeContent E A this connection' change =
     (let uri' = uri (document change);
          r = analyze A (analyzer this) uri' (document change);
          diagnostics = fst r;
          this' = this\<lparr>analyzer := snd r\<rparr>
      in (this',
          [Analyze uri' (document change)] @
          (if getHighlightParsingError E
           then [SendDiagnostics connection' (uri (document change)) diagnostics]
           else [])))"

definition getWordAtPoint ::
  "('a, 'd, 'g, 'l, 'o) Analyzer \<Rightarrow> 'a BashServer \<Rightarrow> text_document_position_params \<Rightarrow>
   string option" where
  "getWordAtPoint A this params =
     wordAtPoint A (analyzer this)
       (uri (textDocument params))
       (line (position params))
       (character (position params))"

definition logRequest ::
  "'a BashServer \<Rightarrow> string \<Rightarrow> text_document_position_params \<Rightarrow> string option \<Rightarrow>
   ('d, 'g) event" where
  "logRequest this request params word =
     (let wordLog = (case word of
                       None \<Rightarrow> []
                     | Some w \<Rightarrow> if truthy word then [CHR 0x22] @ w @ [CHR 0x22] else [])
      in ConsoleLog (connection this)
           (request @ '' '' @ string_of_nat (line (position params)) @ '':'' @
            string_of_nat (character (position params)) @ '' '' @ wordLog))"

definition getMarkdownHoverItem :: "string \<Rightarrow> markup_content" where
  "getMarkdownHoverItem doc =
     \<lparr>markup_content.kind = ''markdown'',
      value = join [''``` man'', doc, ''```''] [CHR 0x0A]\<rparr>"

text \<open>
  The second half of \<^verbatim>\<open>onHover\<close> (from \<^verbatim>\<open>getMarkdownHoverItem\<close> to the final
  \<^verbatim>\<open>return null\<close>), reached when the explainshell block did not return.
\<close>

definition onHover_lookups ::
  "env \<Rightarrow> 'a BashServer \<Rightarrow> string option \<Rightarrow> hover option promise" where
  "onHover_lookups E this word =
     (if Builtins_isBuiltin E word then
        promise_then (Builtins_documentation E word)
          (\<lambda>doc. Some \<lparr>contents = getMarkdownHoverItem doc\<rparr>)
      else if ReservedWords_isReservedWord E word then
        promise_then (ReservedWords_documentation E word)
          (\<lambda>doc. Some \<lparr>contents = getMarkdownHoverItem doc\<rparr>)
      else if isExecutableOnPATH (executables this) word then
        promise_then (executables.documentation (executables this) word)
          (\<lambda>doc. Some \<lparr>contents = getMarkdownHoverItem doc\<rparr>)
      else Inr None)"

definition onHover ::
  "env \<Rightarrow> ('a, 'd, 'g, 'l, 'o) Analyzer \<Rightarrow> 'a BashServer \<Rightarrow> text_document_position_params \<Rightarrow>
   hover option promise \<times> ('d, 'g) event list" where
  "onHover E A this params =
     (let word = getWordAtPoint A this params;
          log1 = [logRequest this ''onHover'' params word]
      in case getExplainshellEndpoint E of
           None \<Rightarrow> (onHover_lookups E this word, log1)
         | Some explainshellEndpoint \<Rightarrow>
             if truthy (Some explainshellEndpoint) then
               (let log2 = log1 @ [ConsoleLog (connection this) (''Query '' @ explainshellEndpoint)]
                in case getExplainshellDocumentation A (analyzer this) params explainshellEndpoint of
                     Inl e \<Rightarrow> (Inl e, log2)
                   | Inr response \<Rightarrow>
                       if status response = ''error'' then
                         (onHover_lookups E this word,
                          log2 @ [ConsoleLog (connection this)
                                    (''getExplainshellDocumentation returned: '' @
                                     JSON_stringify E response)])
                       else
                         (Inr (Some \<lparr>contents =
                                  \<lparr>markup_content.kind = ''markdown'',
                                   value = turndown E (helpHTML response)\<rparr>\<rparr>),
                          log2))
             else (onHover_lookups E this word, log1))"

definition onDefinition ::
  "('a, 'd, 'g, 'l, 'o) Analyzer \<Rightarrow> 'a BashServer \<Rightarrow> text_document_position_params \<Rightarrow>
   'l list \<times> ('d, 'g) event list" where
  "onDefinition A this params =
     (let word = getWordAtPoint A this params
      in (findDefinition A (analyzer this) word,
          [logRequest this ''onDefinition'' params word]))"

definition onDocumentSymbol ::
  "('a, 'd, 'g, 'l, 'o) Analyzer \<Rightarrow> 'a BashServer \<Rightarrow> document_symbol_params \<Rightarrow>
   'l symbol_information list \<times> ('d, 'g) event list" where
  "onDocumentSymbol A this params =
     (case params of
        DocumentSymbolParams textDocument' \<Rightarrow>
          (findSymbols A (analyzer this) (uri textDocument'),
           [ConsoleLog (connection this) ''onDocumentSymbol'']))"

definition onWorkspaceSymbol ::
  "('a, 'd, 'g, 'l, 'o) Analyzer \<Rightarrow> 'a BashServer \<Rightarrow> workspace_symbol_params \<Rightarrow>
   'l symbol_information list \<times> ('d, 'g) event list" where
  "onWorkspaceSymbol A this params =
     (case params of
        WorkspaceSymbolParams query \<Rightarrow>
          (search A (analyzer this) query,
           [ConsoleLog (connection this) ''onWorkspaceSymbol'']))"

definition onDocumentHighlight ::
  "('a, 'd, 'g, 'l, 'o) Analyzer \<Rightarrow> 'a BashServer \<Rightarrow> text_document_position_params \<Rightarrow>
   document_highlight list \<times> ('d, 'g) event list" where
  "onDocumentHighlight A this params =
     (let word = getWordAtPoint A this params
      in (map (\<lambda>n. \<lparr>document_highlight.range = occurrence.range n, kind = None\<rparr>)
            (findOccurrences A (analyzer this) (uri (textDocument params)) word),
          [logRequest this ''onDocumentHighlight'' params word]))"

definition onReferences ::
  "('a, 'd, 'g, 'l, 'o) Analyzer \<Rightarrow> 'a BashServer \<Rightarrow> text_document_position_params \<Rightarrow>
   'l list \<times> ('d, 'g) event list" where
  "onReferences A this params =
     (let word = getWordAtPoint A this params
      in (findReferences A (analyzer this) word,
          [logRequest this ''onReferences'' params word]))"

definition onCompletion ::
  "env \<Rightarrow> ('a, 'd, 'g, 'l, 'o) Analyzer \<Rightarrow> 'a BashServer \<Rightarrow> text_document_position_params \<Rightarrow>
   BashCompletionItem list \<times> ('d, 'g) event list" where
  "onCompletion E A this params =
     (let word = getWordAtPoint A this params;
          log = [logRequest this ''onCompletion'' params word];
          symbolCompletions = findSymbolCompletions A (analyzer this) (uri (textDocument params));
          reservedWordsCompletions =
            map (\<lambda>reservedWord.
                   \<lparr>label = reservedWord,
                    BashCompletionItem.kind = SymbolKind_Interface,
                    data = \<lparr>name = reservedWord, type = ReservedWord\<rparr>,
                    BashCompletionItem.documentation = None\<rparr>)
                (ReservedWords_LIST E);
          programCompletions =
            map (\<lambda>s.
                   \<lparr>label = s,
                    BashCompletionItem.kind = SymbolKind_Function,
                    data = \<lparr>name = s, type = Executable\<rparr>,
                    BashCompletionItem.documentation = None\<rparr>)
                (list (executables this));
          builtinsCompletions =
            map (\<lambda>builtin.
                   \<lparr>label = builtin,
                    BashCompletionItem.kind = SymbolKind_Interface,
                    data = \<lparr>name = builtin, type = Builtin\<rparr>,
                    BashCompletionItem.documentation = None\<rparr>)
                (Builtins_LIST E);
          allCompletions =
            reservedWordsCompletions @ symbolCompletions @ programCompletions @ builtinsCompletions
      in case word of
           None \<Rightarrow> (allCompletions, log)
         | Some w \<Rightarrow>
             if truthy word then
               if startsWith w ''#'' then ([], log)
               else (filter (\<lambda>item. startsWith (label item) w) allCompletions, log)
             else (allCompletions, log))"

definition onCompletionResolve ::
  "env \<Rightarrow> 'a BashServer \<Rightarrow> BashCompletionItem \<Rightarrow>
   BashCompletionItem promise \<times> ('d, 'g) event list" where
  "onCompletionResolve E this item =
     (let name' = name (data item);
          type' = type (data item);
          log = [ConsoleLog (connection this)
                   (''onCompletionResolve name='' @ name' @ '' type='' @ type_to_string E type')];
          getMarkdownCompletionItem =
            (\<lambda>doc. item\<lparr>BashCompletionItem.documentation :=
                          Some \<lparr>markup_content.kind = ''markdown'',
                                value = join [''``` man'', doc, ''```''] [CHR 0x0A]\<rparr>\<rparr>)
      in (try_catch
            (if type' = Executable then
               promise_then (executables.documentation (executables this) (Some name'))
                 getMarkdownCompletionItem
             else if type' = Builtin then
               promise_then (Builtins_documentation E (Some name')) getMarkdownCompletionItem
             else if type' = ReservedWord then
               promise_then (ReservedWords_documentation E (Some name')) getMarkdownCompletionItem
             else Inr item)
            (\<lambda>error. Inr item),
          log))"

text \<open>
  \<^verbatim>\<open>register(connection)\<close>: the document manager listens on the server's own connection
  and gets the content-change callback; every other handler is the method bound to
  \<^verbatim>\<open>this\<close>, installed on the \<^verbatim>\<open>connection\<close> given. The result is what has been installed:
  the connection listened on, and each handler as the function that the connection will
  call.
\<close>

record ('a, 'd, 'g, 'l) registration =
  documents_listen :: conn
  handlers_on :: conn
  onDidChangeContent_handler ::
    "'d text_document_change_event \<Rightarrow> 'a BashServer \<times> ('d, 'g) event list"
  onHover_handler ::
    "text_document_position_params \<Rightarrow> hover option promise \<times> ('d, 'g) event list"
  onDefinition_handler :: "text_document_position_params \<Rightarrow> 'l list \<times> ('d, 'g) event list"
  onDocumentSymbol_handler ::
    "document_symbol_params \<Rightarrow> 'l symbol_information list \<times> ('d, 'g) event list"
  onWorkspaceSymbol_handler ::
    "workspace_symbol_params \<Rightarrow> 'l symbol_information list \<times> ('d, 'g) event list"
  onDocumentHighlight_handler ::
    "text_document_position_params \<Rightarrow> document_highlight list \<times> ('d, 'g) event list"
  onReferences_handler :: "text_document_position_params \<Rightarrow> 'l list \<times> ('d, 'g) event list"
  onCompletion_handler ::
    "text_document_position_params \<Rightarrow> BashCompletionItem list \<times> ('d, 'g) event list"
  onCompletionResolve_handler ::
    "BashCompletionItem \<Rightarrow> BashCompletionItem promise \<times> ('d, 'g) event list"

definition register ::
  "env \<Rightarrow> ('a, 'd, 'g, 'l, 'o) Analyzer \<Rightarrow> 'a BashServer \<Rightarrow> conn \<Rightarrow>
   ('a, 'd, 'g, 'l) registration" where
  "register E A this connection' =
     \<lparr>documents_listen = connection this,
      handlers_on = connection',
      onDidChangeContent_handler = onDidChangeContent E A this connection',
      onHover_handler = onHover E A this,
      onDefinition_handler = onDefinition A this,
      onDocumentSymbol_handler = onDocumentSymbol A this,
      onWorkspaceSymbol_handler = onWorkspaceSymbol A this,
      onDocumentHighlight_handler = onDocumentHighlight A this,
      onReferences_handler = onReferences A this,
      onCompletion_handler = onCompletion E A this,
      onCompletionResolve_handler = onCompletionResolve E this\<rparr>"

subsection \<open>Example collaborators\<close>

text \<open>
  A small concrete instance of every collaborator, on which the theorems below are
  exercised: two builtins, three reserved words, two executables, and an analyzer whose
  state is the list of the URIs analysed so far and whose cursor word depends on the line.
\<close>

definition example_executables :: executables where
  "example_executables =
     \<lparr>list = [''ls'', ''grep''],
      isExecutableOnPATH = (\<lambda>w. case w of None \<Rightarrow> False | Some s \<Rightarrow> s = ''ls'' \<or> s = ''grep''),
      documentation =
        (\<lambda>w. if w = Some ''ls'' then Inr ''ls - list directory contents''
             else Inl (Error ''no manual entry''))\<rparr>"

definition example_env :: env where
  "example_env =
     \<lparr>Builtins_LIST = [''echo'', ''cd''],
      Builtins_isBuiltin = (\<lambda>w. case w of None \<Rightarrow> False | Some s \<Rightarrow> s = ''echo'' \<or> s = ''cd''),
      Builtins_documentation =
        (\<lambda>w. if w = Some ''echo'' then Inr ''echo: write arguments''
             else Inl (Error ''no help topic'')),
      ReservedWords_LIST = [''if'', ''then'', ''fi''],
      ReservedWords_isReservedWord =
        (\<lambda>w. case w of None \<Rightarrow> False | Some s \<Rightarrow> s = ''if'' \<or> s = ''then'' \<or> s = ''fi''),
      ReservedWords_documentation =
        (\<lambda>w. if w = Some ''if'' then Inr ''if: conditional''
             else Inl (Error ''no help topic'')),
      getExplainshellEndpoint = None,
      getHighlightParsingError = True,
      turndown = (\<lambda>html. html),
      JSON_stringify = (\<lambda>response. status response),
      type_to_string =
        (\<lambda>t. case t of Builtin \<Rightarrow> ''0'' | Executable \<Rightarrow> ''1'' | ReservedWord \<Rightarrow> ''2''
              | Symbol \<Rightarrow> ''3'')\<rparr>"

definition example_symbol :: BashCompletionItem where
  "example_symbol =
     \<lparr>label = ''extract'', BashCompletionItem.kind = SymbolKind_Function,
      data = \<lparr>name = ''extract'', type = Symbol\<rparr>,
      BashCompletionItem.documentation = None\<rparr>"

definition example_Analyzer :: "(string list, unit, string, string, unit) Analyzer" where
  "example_Analyzer =
     \<lparr>analyze = (\<lambda>a u d. ([''syntax error in '' @ u], u # a)),
      wordAtPoint =
        (\<lambda>a u l c. if l = 0 then Some ''echo'' else if l = 1 then Some ''#note''
                   else if l = 2 then Some ''ls'' else if l = 3 then Some ''if''
                   else if l = 4 then Some ''e'' else if l = 5 then Some ''extract''
                   else if l = 6 then Some ''cd'' else None),
      findDefinition = (\<lambda>a w. case w of None \<Rightarrow> [] | Some s \<Rightarrow> [''declaration of '' @ s]),
      findReferences = (\<lambda>a w. case w of None \<Rightarrow> [] | Some s \<Rightarrow> [''use of '' @ s]),
      findSymbols = (\<lambda>a u. [SymbolInformation ''extract'' SymbolKind_Function u]),
      search =
        (\<lambda>a query. if prefix query ''extract''
                   then [SymbolInformation ''extract'' SymbolKind_Function ''file:///a.sh'']
                   else []),
      findOccurrences =
        (\<lambda>a u w. [\<lparr>occurrence.range = (\<lparr>line = 0, character = 0\<rparr>, \<lparr>line = 0, character = 4\<rparr>)\<rparr>,
                  \<lparr>occurrence.range = (\<lparr>line = 7, character = 2\<rparr>, \<lparr>line = 7, character = 6\<rparr>)\<rparr>]),
      findSymbolCompletions = (\<lambda>a u. [example_symbol]),
      getExplainshellDocumentation =
        (\<lambda>a params endpoint.
           if endpoint = ''down'' then Inl (Error ''unreachable'')
           else if endpoint = ''good'' then Inr \<lparr>status = ''ok'', helpHTML = ''echo(1)''\<rparr>
           else Inr \<lparr>status = ''error'', helpHTML = []\<rparr>)\<rparr>"

definition example_server :: "string list BashServer" where
  "example_server = new_BashServer 1 example_executables []"

definition example_params :: "nat \<Rightarrow> text_document_position_params" where
  "example_params l =
     \<lparr>textDocument = \<lparr>uri = ''file:///a.sh''\<rparr>, position = \<lparr>line = l, character = 0\<rparr>\<rparr>"

definition example_startup ::
  "string promise \<Rightarrow> executables promise \<Rightarrow> string list promise \<Rightarrow> (string, string list) startup"
  where
  "example_startup parser scan workspace =
     \<lparr>initializeParser = parser,
      PATH = Some ''/usr/bin'',
      Executables_fromPath = (\<lambda>path. scan),
      Analyzer_fromRoot = (\<lambda>connection' rootPath p. workspace),
      scans_settle = FirstSettlesFirst\<rparr>"

text \<open>The example environment with an explainshell endpoint configured.\<close>

definition example_env_explainshell :: "string \<Rightarrow> env" where
  "example_env_explainshell endpoint = example_env\<lparr>getExplainshellEndpoint := Some endpoint\<rparr>"

definition example_change :: "unit text_document_change_event" where
  "example_change = \<lparr>document = \<lparr>uri = ''file:///a.sh''\<rparr>\<rparr>"

definition example_item :: "string \<Rightarrow> CompletionItemDataType \<Rightarrow> BashCompletionItem" where
  "example_item n t =
     \<lparr>label = n, BashCompletionItem.kind = SymbolKind_Function,
      data = \<lparr>name = n, type = t\<rparr>,
      BashCompletionItem.documentation = None\<rparr>"

section \<open>Properties\<close>

subsection \<open>Auxiliary facts\<close>

lemmas example_defs = example_env_def example_Analyzer_def example_server_def example_params_def
  example_executables_def example_symbol_def new_BashServer_def

lemma startsWith_prefix: "startsWith s w = prefix w s"
proof
  assume "startsWith s w"
  then have "s = w @ drop (length w) s"
    unfolding startsWith_def by (metis append_take_drop_id)
  then show "prefix w s"
    by (metis prefixI)
next
  assume "prefix w s"
  then obtain zs where "s = w @ zs"
    by (auto simp: prefix_def)
  then show "startsWith s w"
    by (simp add: startsWith_def)
qed

subsection \<open>Completion\<close>

text \<open>
  Claim C1. Whenever the word that \<^verbatim>\<open>wordAtPoint\<close> returns for the cursor of a completion
  request is not null and begins with the character \<open>#\<close>, \<^verbatim>\<open>onCompletion\<close> returns the
  empty list of candidates, although \<^verbatim>\<open>wordAtPoint\<close> itself returned the token's text.
\<close>

theorem onCompletion_comment_no_candidates:
  assumes "wordAtPoint A (analyzer this) (uri (textDocument params))
             (line (position params)) (character (position params)) = Some (CHR ''#'' # rest)"
  shows "fst (onCompletion E A this params) = []"
  using assms
  by (simp add: onCompletion_def getWordAtPoint_def Let_def startsWith_def)

theorem onCompletion_comment_no_candidates_witness:
  "wordAtPoint example_Analyzer (analyzer example_server) (uri (textDocument (example_params 1)))
     (line (position (example_params 1))) (character (position (example_params 1)))
     = Some (CHR ''#'' # ''note'')
   \<and> fst (onCompletion example_env example_Analyzer example_server (example_params 1)) = []"
proof -
  have h: "wordAtPoint example_Analyzer (analyzer example_server)
             (uri (textDocument (example_params 1)))
             (line (position (example_params 1))) (character (position (example_params 1)))
           = Some (CHR ''#'' # ''note'')"
    by (simp add: example_Analyzer_def example_params_def)
  show ?thesis
    using h onCompletion_comment_no_candidates [OF h, of example_env] by simp
qed

text \<open>
  Claim C4. The candidates of \<^verbatim>\<open>onCompletion\<close> are the reserved-word candidates, then the
  symbol completions of the request's document, then the PATH executables, then the
  builtins. With a null cursor word the whole list is returned; with a word that is not
  null and does not begin with \<open>#\<close>, exactly the candidates whose label has the word as a
  prefix are returned, in the same order.
\<close>

theorem onCompletion_candidates:
  fixes E :: env and A :: "('a, 'd, 'g, 'l, 'o) Analyzer" and this :: "'a BashServer"
    and params :: text_document_position_params
  defines "reserved \<equiv>
     map (\<lambda>w. \<lparr>label = w, BashCompletionItem.kind = SymbolKind_Interface,
               data = \<lparr>name = w, type = ReservedWord\<rparr>,
               BashCompletionItem.documentation = None\<rparr>) (ReservedWords_LIST E)"
  defines "programs \<equiv>
     map (\<lambda>w. \<lparr>label = w, BashCompletionItem.kind = SymbolKind_Function,
               data = \<lparr>name = w, type = Executable\<rparr>,
               BashCompletionItem.documentation = None\<rparr>) (list (executables this))"
  defines "builtins \<equiv>
     map (\<lambda>w. \<lparr>label = w, BashCompletionItem.kind = SymbolKind_Interface,
               data = \<lparr>name = w, type = Builtin\<rparr>,
               BashCompletionItem.documentation = None\<rparr>) (Builtins_LIST E)"
  defines "symbols \<equiv> findSymbolCompletions A (analyzer this) (uri (textDocument params))"
  defines "word \<equiv> wordAtPoint A (analyzer this) (uri (textDocument params))
                     (line (position params)) (character (position params))"
  shows "(word = None \<longrightarrow>
            fst (onCompletion E A this params) = reserved @ symbols @ programs @ builtins)
       \<and> (\<forall>w. word = Some w \<and> \<not> prefix ''#'' w \<longrightarrow>
            fst (onCompletion E A this params) =
              filter (\<lambda>item. prefix w (label item)) (reserved @ symbols @ programs @ builtins))"
proof (intro conjI allI impI)
  assume "word = None"
  then show "fst (onCompletion E A this params) = reserved @ symbols @ programs @ builtins"
    unfolding word_def reserved_def programs_def builtins_def symbols_def
    by (simp add: onCompletion_def getWordAtPoint_def Let_def)
next
  fix w
  assume a: "word = Some w \<and> \<not> prefix ''#'' w"
  then have hash: "\<not> startsWith w ''#''"
    by (simp add: startsWith_prefix)
  show "fst (onCompletion E A this params) =
          filter (\<lambda>item. prefix w (label item)) (reserved @ symbols @ programs @ builtins)"
  proof (cases "w = []")
    case True
    with a show ?thesis
      unfolding word_def reserved_def programs_def builtins_def symbols_def
      by (simp add: onCompletion_def getWordAtPoint_def Let_def)
  next
    case False
    with a hash show ?thesis
      unfolding word_def reserved_def programs_def builtins_def symbols_def
      by (simp add: onCompletion_def getWordAtPoint_def Let_def startsWith_prefix)
  qed
qed

theorem onCompletion_candidates_witness:
  "fst (onCompletion example_env example_Analyzer example_server (example_params 4)) =
     [example_symbol,
      \<lparr>label = ''echo'', BashCompletionItem.kind = SymbolKind_Interface,
       data = \<lparr>name = ''echo'', type = Builtin\<rparr>, BashCompletionItem.documentation = None\<rparr>]
   \<and> map label (fst (onCompletion example_env example_Analyzer example_server (example_params 9))) =
     [''if'', ''then'', ''fi'', ''extract'', ''ls'', ''grep'', ''echo'', ''cd'']"
proof -
  note c4 = onCompletion_candidates [where E = example_env and A = example_Analyzer
      and this = example_server]
  have w4: "wordAtPoint example_Analyzer (analyzer example_server)
              (uri (textDocument (example_params 4))) (line (position (example_params 4)))
              (character (position (example_params 4))) = Some ''e''"
    by (simp add: example_Analyzer_def example_params_def)
  have w9: "wordAtPoint example_Analyzer (analyzer example_server)
              (uri (textDocument (example_params 9))) (line (position (example_params 9)))
              (character (position (example_params 9))) = None"
    by (simp add: example_Analyzer_def example_params_def)
  have "\<not> prefix ''#'' ''e''"
    by simp
  with w4 c4 [where params = "example_params 4"] have
    "fst (onCompletion example_env example_Analyzer example_server (example_params 4)) =
       [example_symbol,
        \<lparr>label = ''echo'', BashCompletionItem.kind = SymbolKind_Interface,
         data = \<lparr>name = ''echo'', type = Builtin\<rparr>, BashCompletionItem.documentation = None\<rparr>]"
    by (simp add: example_defs)
  moreover from w9 c4 [where params = "example_params 9"] have
    "map label (fst (onCompletion example_env example_Analyzer example_server (example_params 9))) =
       [''if'', ''then'', ''fi'', ''extract'', ''ls'', ''grep'', ''echo'', ''cd'']"
    by (simp add: example_defs)
  ultimately show ?thesis by simp
qed

subsection \<open>Definition and highlight\<close>

text \<open>
  Claim C6. \<^verbatim>\<open>onDefinition\<close> returns exactly what \<^verbatim>\<open>findDefinition\<close> gives for the word
  that \<^verbatim>\<open>wordAtPoint\<close> finds at the cursor of the request, at every cursor position; where
  \<^verbatim>\<open>wordAtPoint\<close> yields null, that null is what \<^verbatim>\<open>findDefinition\<close> receives.
\<close>

theorem onDefinition_passes_word:
  "fst (onDefinition A this params) =
     findDefinition A (analyzer this)
       (wordAtPoint A (analyzer this) (uri (textDocument params))
          (line (position params)) (character (position params)))
   \<and> (wordAtPoint A (analyzer this) (uri (textDocument params))
          (line (position params)) (character (position params)) = None \<longrightarrow>
        fst (onDefinition A this params) = findDefinition A (analyzer this) None)"
  by (simp add: onDefinition_def getWordAtPoint_def Let_def)

theorem onDefinition_passes_word_witness:
  "fst (onDefinition example_Analyzer example_server (example_params 5)) = [''declaration of extract'']
   \<and> wordAtPoint example_Analyzer (analyzer example_server) (uri (textDocument (example_params 9)))
          (line (position (example_params 9))) (character (position (example_params 9))) = None
   \<and> fst (onDefinition example_Analyzer example_server (example_params 9)) =
       findDefinition example_Analyzer (analyzer example_server) None"
proof -
  have "fst (onDefinition example_Analyzer example_server (example_params 5)) =
          findDefinition example_Analyzer (analyzer example_server)
            (wordAtPoint example_Analyzer (analyzer example_server)
               (uri (textDocument (example_params 5)))
               (line (position (example_params 5))) (character (position (example_params 5))))"
    using onDefinition_passes_word [of example_Analyzer example_server "example_params 5"]
    by (rule conjunct1)
  also have "\<dots> = [''declaration of extract'']"
    by (simp add: example_defs)
  finally have first: "fst (onDefinition example_Analyzer example_server (example_params 5)) =
      [''declaration of extract'']" .
  have null: "wordAtPoint example_Analyzer (analyzer example_server)
      (uri (textDocument (example_params 9)))
      (line (position (example_params 9))) (character (position (example_params 9))) = None"
    by (simp add: example_defs)
  from null onDefinition_passes_word [of example_Analyzer example_server "example_params 9"]
  have "fst (onDefinition example_Analyzer example_server (example_params 9)) =
          findDefinition example_Analyzer (analyzer example_server) None"
    by blast
  with first null show ?thesis
    by blast
qed

text \<open>
  Claim C7. \<^verbatim>\<open>onDocumentHighlight\<close> returns one highlight for each occurrence that
  \<^verbatim>\<open>findOccurrences\<close> gives for the request's document and cursor word, in the same order;
  a highlight carries the range of its occurrence and nothing else of it (it is a function
  of the range alone, and its optional kind is absent).
\<close>

theorem onDocumentHighlight_ranges:
  fixes A :: "('a, 'd, 'g, 'l, 'o) Analyzer" and this :: "'a BashServer"
    and params :: text_document_position_params
  defines "occs \<equiv> findOccurrences A (analyzer this) (uri (textDocument params))
                     (wordAtPoint A (analyzer this) (uri (textDocument params))
                        (line (position params)) (character (position params)))"
  defines "hs \<equiv> fst (onDocumentHighlight A this params)"
  shows "length hs = length occs
       \<and> (\<forall>i < length occs.
            document_highlight.range (hs ! i) = occurrence.range (occs ! i)
            \<and> document_highlight.kind (hs ! i) = None)
       \<and> hs = map (\<lambda>r. \<lparr>document_highlight.range = r, kind = None\<rparr>) (map occurrence.range occs)"
  unfolding hs_def occs_def
  by (simp add: onDocumentHighlight_def getWordAtPoint_def Let_def comp_def)

theorem onDocumentHighlight_ranges_witness:
  "fst (onDocumentHighlight example_Analyzer example_server (example_params 0)) =
     [\<lparr>document_highlight.range = (\<lparr>line = 0, character = 0\<rparr>, \<lparr>line = 0, character = 4\<rparr>), kind = None\<rparr>,
      \<lparr>document_highlight.range = (\<lparr>line = 7, character = 2\<rparr>, \<lparr>line = 7, character = 6\<rparr>), kind = None\<rparr>]"
proof -
  have "fst (onDocumentHighlight example_Analyzer example_server (example_params 0)) =
          map (\<lambda>r. \<lparr>document_highlight.range = r, kind = None\<rparr>)
            (map occurrence.range
               (findOccurrences example_Analyzer (analyzer example_server)
                  (uri (textDocument (example_params 0)))
                  (wordAtPoint example_Analyzer (analyzer example_server)
                     (uri (textDocument (example_params 0)))
                     (line (position (example_params 0)))
                     (character (position (example_params 0))))))"
    using onDocumentHighlight_ranges [of example_Analyzer example_server "example_params 0"]
    by blast
  also have "\<dots> =
     [\<lparr>document_highlight.range = (\<lparr>line = 0, character = 0\<rparr>, \<lparr>line = 0, character = 4\<rparr>), kind = None\<rparr>,
      \<lparr>document_highlight.range = (\<lparr>line = 7, character = 2\<rparr>, \<lparr>line = 7, character = 6\<rparr>), kind = None\<rparr>]"
    by (simp add: example_defs)
  finally show ?thesis .
qed

subsection \<open>Resolving a completion item\<close>

text \<open>
  Claim C8. \<^verbatim>\<open>onCompletionResolve\<close> never rejects. For an item of type Executable, Builtin
  or ReservedWord whose documentation lookup resolves, the result is the item with a
  markdown documentation field set and every other field as it was; for an item of any
  other type, and whenever the lookup rejects, the result is the item itself.
\<close>

theorem onCompletionResolve_never_rejects:
  fixes E :: env and this :: "'a BashServer" and item :: BashCompletionItem
  defines "result \<equiv> fst (onCompletionResolve E this item :: _ \<times> (unit, unit) event list)"
  defines "n \<equiv> Some (name (data item))"
  defines "documented \<equiv> \<lambda>doc.
     item\<lparr>BashCompletionItem.documentation :=
            Some \<lparr>markup_content.kind = ''markdown'',
                  value = ''``` man'' @ [CHR 0x0A] @ doc @ [CHR 0x0A] @ ''```''\<rparr>\<rparr>"
  shows "(\<exists>r. result = Inr r)
       \<and> (type (data item) = Executable \<longrightarrow>
            (\<forall>doc. executables.documentation (executables this) n = Inr doc \<longrightarrow>
                     result = Inr (documented doc))
            \<and> (\<forall>e. executables.documentation (executables this) n = Inl e \<longrightarrow> result = Inr item))
       \<and> (type (data item) = Builtin \<longrightarrow>
            (\<forall>doc. Builtins_documentation E n = Inr doc \<longrightarrow> result = Inr (documented doc))
            \<and> (\<forall>e. Builtins_documentation E n = Inl e \<longrightarrow> result = Inr item))
       \<and> (type (data item) = ReservedWord \<longrightarrow>
            (\<forall>doc. ReservedWords_documentation E n = Inr doc \<longrightarrow> result = Inr (documented doc))
            \<and> (\<forall>e. ReservedWords_documentation E n = Inl e \<longrightarrow> result = Inr item))
       \<and> (type (data item) \<notin> {Executable, Builtin, ReservedWord} \<longrightarrow> result = Inr item)
       \<and> (\<forall>doc. label (documented doc) = label item
                \<and> BashCompletionItem.kind (documented doc) = BashCompletionItem.kind item
                \<and> data (documented doc) = data item)"
  unfolding result_def n_def documented_def
  by (cases "type (data item)")
     (auto simp: onCompletionResolve_def Let_def try_catch_def promise_then_def split: sum.splits)

theorem onCompletionResolve_never_rejects_witness:
  "fst (onCompletionResolve example_env example_server (example_item ''ls'' Executable)
          :: _ \<times> (unit, unit) event list) =
     Inr ((example_item ''ls'' Executable)
            \<lparr>BashCompletionItem.documentation :=
               Some \<lparr>markup_content.kind = ''markdown'',
                     value = ''``` man'' @ [CHR 0x0A] @ ''ls - list directory contents'' @
                             [CHR 0x0A] @ ''```''\<rparr>\<rparr>)
   \<and> fst (onCompletionResolve example_env example_server (example_item ''cd'' Builtin)
          :: _ \<times> (unit, unit) event list) = Inr (example_item ''cd'' Builtin)
   \<and> fst (onCompletionResolve example_env example_server (example_item ''if'' ReservedWord)
          :: _ \<times> (unit, unit) event list) =
     Inr ((example_item ''if'' ReservedWord)
            \<lparr>BashCompletionItem.documentation :=
               Some \<lparr>markup_content.kind = ''markdown'',
                     value = ''``` man'' @ [CHR 0x0A] @ ''if: conditional'' @
                             [CHR 0x0A] @ ''```''\<rparr>\<rparr>)
   \<and> fst (onCompletionResolve example_env example_server (example_item ''extract'' Symbol)
          :: _ \<times> (unit, unit) event list) = Inr (example_item ''extract'' Symbol)"
proof -
  note c8 = onCompletionResolve_never_rejects [where E = example_env and this = example_server]
  have ls: "type (data (example_item ''ls'' Executable)) = Executable"
    "executables.documentation (executables example_server)
       (Some (name (data (example_item ''ls'' Executable)))) = Inr ''ls - list directory contents''"
    by (simp_all add: example_item_def example_defs)
  have cd: "type (data (example_item ''cd'' Builtin)) = Builtin"
    "Builtins_documentation example_env (Some (name (data (example_item ''cd'' Builtin)))) =
       Inl (Error ''no help topic'')"
    by (simp_all add: example_item_def example_defs)
  have if': "type (data (example_item ''if'' ReservedWord)) = ReservedWord"
    "ReservedWords_documentation example_env
       (Some (name (data (example_item ''if'' ReservedWord)))) = Inr ''if: conditional''"
    by (simp_all add: example_item_def example_defs)
  have sym: "type (data (example_item ''extract'' Symbol)) \<notin> {Executable, Builtin, ReservedWord}"
    by (simp add: example_item_def)
  from ls c8 [where item = "example_item ''ls'' Executable"] have
    "fst (onCompletionResolve example_env example_server (example_item ''ls'' Executable)
          :: _ \<times> (unit, unit) event list) =
     Inr ((example_item ''ls'' Executable)
            \<lparr>BashCompletionItem.documentation :=
               Some \<lparr>markup_content.kind = ''markdown'',
                     value = ''``` man'' @ [CHR 0x0A] @ ''ls - list directory contents'' @
                             [CHR 0x0A] @ ''```''\<rparr>\<rparr>)"
    by blast
  moreover from cd c8 [where item = "example_item ''cd'' Builtin"] have
    "fst (onCompletionResolve example_env example_server (example_item ''cd'' Builtin)
          :: _ \<times> (unit, unit) event list) = Inr (example_item ''cd'' Builtin)"
    by blast
  moreover from if' c8 [where item = "example_item ''if'' ReservedWord"] have
    "fst (onCompletionResolve example_env example_server (example_item ''if'' ReservedWord)
          :: _ \<times> (unit, unit) event list) =
     Inr ((example_item ''if'' ReservedWord)
            \<lparr>BashCompletionItem.documentation :=
               Some \<lparr>markup_content.kind = ''markdown'',
                     value = ''``` man'' @ [CHR 0x0A] @ ''if: conditional'' @
                             [CHR 0x0A] @ ''```''\<rparr>\<rparr>)"
    by blast
  moreover from sym c8 [where item = "example_item ''extract'' Symbol"] have
    "fst (onCompletionResolve example_env example_server (example_item ''extract'' Symbol)
          :: _ \<times> (unit, unit) event list) = Inr (example_item ''extract'' Symbol)"
    by blast
  ultimately show ?thesis
    by blast
qed

subsection \<open>Content changes\<close>

text \<open>
  Claim C3. On a content-change event for a document with URI \<open>u\<close>, the registered
  callback calls \<^verbatim>\<open>analyze\<close> on \<open>u\<close> and the document exactly once; the diagnostics that
  call returns are sent to the client if and only if the highlight-parsing-error flag is
  set, and exactly once then. With the flag off the analysis has still taken place (the
  analyzer holds its new state) and nothing is sent.
\<close>

theorem onDidChangeContent_analyzes_once:
  fixes E :: env and A :: "('a, 'd, 'g, 'l, 'o) Analyzer" and this :: "'a BashServer"
    and c :: conn and change :: "'d text_document_change_event"
  defines "u \<equiv> uri (document change)"
  defines "r \<equiv> analyze A (analyzer this) u (document change)"
  defines "events \<equiv> snd (onDidChangeContent E A this c change)"
  shows "filter (\<lambda>ev. \<exists>u' d. ev = Analyze u' d) events = [Analyze u (document change)]
       \<and> filter (\<lambda>ev. \<exists>c' u' g. ev = SendDiagnostics c' u' g) events =
           (if getHighlightParsingError E then [SendDiagnostics c u (fst r)] else [])
       \<and> (SendDiagnostics c u (fst r) \<in> set events) = getHighlightParsingError E
       \<and> analyzer (fst (onDidChangeContent E A this c change)) = snd r"
  unfolding u_def r_def events_def
  by (simp add: onDidChangeContent_def Let_def)

theorem onDidChangeContent_analyzes_once_witness:
  "snd (onDidChangeContent example_env example_Analyzer example_server 1 example_change) =
     [Analyze ''file:///a.sh'' (document example_change),
      SendDiagnostics 1 ''file:///a.sh'' [''syntax error in file:///a.sh'']]
   \<and> snd (onDidChangeContent (example_env\<lparr>getHighlightParsingError := False\<rparr>)
           example_Analyzer example_server 1 example_change) =
     [Analyze ''file:///a.sh'' (document example_change)]
   \<and> analyzer (fst (onDidChangeContent (example_env\<lparr>getHighlightParsingError := False\<rparr>)
           example_Analyzer example_server 1 example_change)) = [''file:///a.sh'']"
proof -
  note c3 = onDidChangeContent_analyzes_once [where A = example_Analyzer
      and this = example_server and c = 1 and change = example_change]
  have "analyzer (fst (onDidChangeContent (example_env\<lparr>getHighlightParsingError := False\<rparr>)
           example_Analyzer example_server 1 example_change)) =
        snd (analyze example_Analyzer (analyzer example_server) (uri (document example_change))
               (document example_change))"
    using c3 [where E = "example_env\<lparr>getHighlightParsingError := False\<rparr>"] by blast
  also have "\<dots> = [''file:///a.sh'']"
    by (simp add: example_defs example_change_def)
  finally show ?thesis
    by (simp add: onDidChangeContent_def Let_def example_defs example_change_def)
qed

subsection \<open>Initialization\<close>

lemma initialize_cases:
  "initialize S c root =
     (case initializeParser S of
        Inl e \<Rightarrow> (Inl e, [Call_initializeParser])
      | Inr p \<Rightarrow>
          (case Executables_fromPath S (PATH S) of
             Inr x \<Rightarrow>
               (case Analyzer_fromRoot S c root p of
                  Inr a \<Rightarrow>
                    (Inr \<lparr>executables = x, analyzer = a, connection = c\<rparr>,
                     [Call_initializeParser, Call_fromPath, Call_fromRoot, Construct_BashServer])
                | Inl e \<Rightarrow> (Inl e, [Call_initializeParser, Call_fromPath, Call_fromRoot]))
           | Inl e \<Rightarrow>
               (case Analyzer_fromRoot S c root p of
                  Inr a \<Rightarrow> (Inl e, [Call_initializeParser, Call_fromPath, Call_fromRoot])
                | Inl e' \<Rightarrow>
                    (Inl (case scans_settle S of FirstSettlesFirst \<Rightarrow> e | SecondSettlesFirst \<Rightarrow> e'),
                     [Call_initializeParser, Call_fromPath, Call_fromRoot]))))"
  by (simp add: initialize_def Promise_all_def new_BashServer_def
      split: sum.splits settle_order.splits)

text \<open>
  Claim C2. No query handler can run before initialization has completed. \<^verbatim>\<open>initialize\<close>
  yields a \<^verbatim>\<open>BashServer\<close> exactly when the grammar initialisation, the PATH scan and the
  workspace scan (on the resolved parser) have all resolved; the grammar initialisation
  comes first, the two scans are started only once it has resolved, and the construction
  of the server is the last step, taken only when both scans have resolved. The handlers
  that \<^verbatim>\<open>register\<close> installs for a server that \<^verbatim>\<open>initialize\<close> yielded are bound to that
  server: each of them queries the analyzer that the workspace scan resolved with and the
  executables that the PATH scan resolved with.
\<close>

theorem initialize_constructs_last:
  fixes S :: "('p, 'a) startup" and c :: conn and root :: "string option"
    and E :: env and A :: "('a, 'd, 'g, 'l, 'o) Analyzer" and c' :: conn
  defines "result \<equiv> fst (initialize S c root)"
  defines "steps \<equiv> snd (initialize S c root)"
  shows "(\<forall>server. result = Inr server \<longleftrightarrow>
            (\<exists>p x a. initializeParser S = Inr p
                     \<and> Executables_fromPath S (PATH S) = Inr x
                     \<and> Analyzer_fromRoot S c root p = Inr a
                     \<and> server = \<lparr>executables = x, analyzer = a, connection = c\<rparr>))
       \<and> (Construct_BashServer \<in> set steps \<longleftrightarrow> (\<exists>server. result = Inr server))
       \<and> ((\<exists>server. result = Inr server) \<longrightarrow>
             steps = [Call_initializeParser, Call_fromPath, Call_fromRoot, Construct_BashServer])
       \<and> (Call_fromPath \<in> set steps \<or> Call_fromRoot \<in> set steps \<longrightarrow>
             (\<exists>p. initializeParser S = Inr p))
       \<and> ((\<exists>e. initializeParser S = Inl e) \<longrightarrow> steps = [Call_initializeParser])
       \<and> ((\<exists>p. initializeParser S = Inr p) \<and> (\<exists>e. result = Inl e) \<longrightarrow>
             steps = [Call_initializeParser, Call_fromPath, Call_fromRoot])
       \<and> (\<forall>server p x a.
             result = Inr server \<and> initializeParser S = Inr p
             \<and> Executables_fromPath S (PATH S) = Inr x \<and> Analyzer_fromRoot S c root p = Inr a \<longrightarrow>
             documents_listen (register E A server c') = c
             \<and> handlers_on (register E A server c') = c'
             \<and> (\<forall>params.
                   fst (onDefinition_handler (register E A server c') params) =
                     findDefinition A a
                       (wordAtPoint A a (uri (textDocument params))
                          (line (position params)) (character (position params)))
                   \<and> fst (onReferences_handler (register E A server c') params) =
                       findReferences A a
                         (wordAtPoint A a (uri (textDocument params))
                            (line (position params)) (character (position params)))
                   \<and> fst (onDocumentHighlight_handler (register E A server c') params) =
                       map (\<lambda>n. \<lparr>document_highlight.range = occurrence.range n, kind = None\<rparr>)
                         (findOccurrences A a (uri (textDocument params))
                            (wordAtPoint A a (uri (textDocument params))
                               (line (position params)) (character (position params))))
                   \<and> onHover_handler (register E A server c') params =
                       onHover E A \<lparr>executables = x, analyzer = a, connection = c\<rparr> params
                   \<and> onCompletion_handler (register E A server c') params =
                       onCompletion E A \<lparr>executables = x, analyzer = a, connection = c\<rparr> params)
             \<and> (\<forall>document'.
                   fst (onDocumentSymbol_handler (register E A server c')
                          (DocumentSymbolParams document')) =
                     findSymbols A a (uri document'))
             \<and> (\<forall>query.
                   fst (onWorkspaceSymbol_handler (register E A server c')
                          (WorkspaceSymbolParams query)) =
                     search A a query)
             \<and> (\<forall>item.
                   onCompletionResolve_handler (register E A server c') item =
                     onCompletionResolve E \<lparr>executables = x, analyzer = a, connection = c\<rparr> item)
             \<and> (\<forall>change.
                   onDidChangeContent_handler (register E A server c') change =
                     onDidChangeContent E A \<lparr>executables = x, analyzer = a, connection = c\<rparr>
                       c' change))"
proof -
  have outcome: "\<forall>server. result = Inr server \<longleftrightarrow>
            (\<exists>p x a. initializeParser S = Inr p
                     \<and> Executables_fromPath S (PATH S) = Inr x
                     \<and> Analyzer_fromRoot S c root p = Inr a
                     \<and> server = \<lparr>executables = x, analyzer = a, connection = c\<rparr>)"
    unfolding result_def initialize_cases by (auto split: sum.splits)
  have constructed: "Construct_BashServer \<in> set steps \<longleftrightarrow> (\<exists>server. result = Inr server)"
    unfolding result_def steps_def initialize_cases by (auto split: sum.splits)
  have success: "(\<exists>server. result = Inr server) \<longrightarrow>
      steps = [Call_initializeParser, Call_fromPath, Call_fromRoot, Construct_BashServer]"
    unfolding result_def steps_def initialize_cases by (auto split: sum.splits)
  have scans: "Call_fromPath \<in> set steps \<or> Call_fromRoot \<in> set steps \<longrightarrow>
      (\<exists>p. initializeParser S = Inr p)"
    unfolding steps_def initialize_cases by (auto split: sum.splits)
  have no_parser: "(\<exists>e. initializeParser S = Inl e) \<longrightarrow> steps = [Call_initializeParser]"
    unfolding steps_def initialize_cases by (auto split: sum.splits)
  have no_scan: "(\<exists>p. initializeParser S = Inr p) \<and> (\<exists>e. result = Inl e) \<longrightarrow>
      steps = [Call_initializeParser, Call_fromPath, Call_fromRoot]"
    unfolding result_def steps_def initialize_cases by (auto split: sum.splits)
  have registered: "\<forall>server p x a.
             result = Inr server \<and> initializeParser S = Inr p
             \<and> Executables_fromPath S (PATH S) = Inr x \<and> Analyzer_fromRoot S c root p = Inr a \<longrightarrow>
             documents_listen (register E A server c') = c
             \<and> handlers_on (register E A server c') = c'
             \<and> (\<forall>params.
                   fst (onDefinition_handler (register E A server c') params) =
                     findDefinition A a
                       (wordAtPoint A a (uri (textDocument params))
                          (line (position params)) (character (position params)))
                   \<and> fst (onReferences_handler (register E A server c') params) =
                       findReferences A a
                         (wordAtPoint A a (uri (textDocument params))
                            (line (position params)) (character (position params)))
                   \<and> fst (onDocumentHighlight_handler (register E A server c') params) =
                       map (\<lambda>n. \<lparr>document_highlight.range = occurrence.range n, kind = None\<rparr>)
                         (findOccurrences A a (uri (textDocument params))
                            (wordAtPoint A a (uri (textDocument params))
                               (line (position params)) (character (position params))))
                   \<and> onHover_handler (register E A server c') params =
                       onHover E A \<lparr>executables = x, analyzer = a, connection = c\<rparr> params
                   \<and> onCompletion_handler (register E A server c') params =
                       onCompletion E A \<lparr>executables = x, analyzer = a, connection = c\<rparr> params)
             \<and> (\<forall>document'.
                   fst (onDocumentSymbol_handler (register E A server c')
                          (DocumentSymbolParams document')) =
                     findSymbols A a (uri document'))
             \<and> (\<forall>query.
                   fst (onWorkspaceSymbol_handler (register E A server c')
                          (WorkspaceSymbolParams query)) =
                     search A a query)
             \<and> (\<forall>item.
                   onCompletionResolve_handler (register E A server c') item =
                     onCompletionResolve E \<lparr>executables = x, analyzer = a, connection = c\<rparr> item)
             \<and> (\<forall>change.
                   onDidChangeContent_handler (register E A server c') change =
                     onDidChangeContent E A \<lparr>executables = x, analyzer = a, connection = c\<rparr>
                       c' change)"
  proof (intro allI impI)
    fix server p x a
    assume "result = Inr server \<and> initializeParser S = Inr p
             \<and> Executables_fromPath S (PATH S) = Inr x \<and> Analyzer_fromRoot S c root p = Inr a"
    with outcome have server: "server = \<lparr>executables = x, analyzer = a, connection = c\<rparr>"
      by auto
    show "documents_listen (register E A server c') = c
             \<and> handlers_on (register E A server c') = c'
             \<and> (\<forall>params.
                   fst (onDefinition_handler (register E A server c') params) =
                     findDefinition A a
                       (wordAtPoint A a (uri (textDocument params))
                          (line (position params)) (character (position params)))
                   \<and> fst (onReferences_handler (register E A server c') params) =
                       findReferences A a
                         (wordAtPoint A a (uri (textDocument params))
                            (line (position params)) (character (position params)))
                   \<and> fst (onDocumentHighlight_handler (register E A server c') params) =
                       map (\<lambda>n. \<lparr>document_highlight.range = occurrence.range n, kind = None\<rparr>)
                         (findOccurrences A a (uri (textDocument params))
                            (wordAtPoint A a (uri (textDocument params))
                               (line (position params)) (character (position params))))
                   \<and> onHover_handler (register E A server c') params =
                       onHover E A \<lparr>executables = x, analyzer = a, connection = c\<rparr> params
                   \<and> onCompletion_handler (register E A server c') params =
                       onCompletion E A \<lparr>executables = x, analyzer = a, connection = c\<rparr> params)
             \<and> (\<forall>document'.
                   fst (onDocumentSymbol_handler (register E A server c')
                          (DocumentSymbolParams document')) =
                     findSymbols A a (uri document'))
             \<and> (\<forall>query.
                   fst (onWorkspaceSymbol_handler (register E A server c')
                          (WorkspaceSymbolParams query)) =
                     search A a query)
             \<and> (\<forall>item.
                   onCompletionResolve_handler (register E A server c') item =
                     onCompletionResolve E \<lparr>executables = x, analyzer = a, connection = c\<rparr> item)
             \<and> (\<forall>change.
                   onDidChangeContent_handler (register E A server c') change =
                     onDidChangeContent E A \<lparr>executables = x, analyzer = a, connection = c\<rparr>
                       c' change)"
      unfolding server
      by (simp add: register_def onDefinition_def onReferences_def onDocumentHighlight_def
          onDocumentSymbol_def onWorkspaceSymbol_def getWordAtPoint_def Let_def)
  qed
  from outcome constructed success scans no_parser no_scan registered show ?thesis
    by (intro conjI)
qed

theorem initialize_constructs_last_witness:
  "fst (initialize (example_startup (Inr ''grammar'') (Inr example_executables) (Inr [])) 1 None) =
     Inr example_server
   \<and> snd (initialize (example_startup (Inr ''grammar'') (Inr example_executables) (Inr [])) 1 None) =
     [Call_initializeParser, Call_fromPath, Call_fromRoot, Construct_BashServer]
   \<and> snd (initialize (example_startup (Inl (Error ''no grammar'')) (Inr example_executables)
                        (Inr [])) 1 None) =
     [Call_initializeParser]
   \<and> snd (initialize (example_startup (Inr ''grammar'') (Inr example_executables)
                        (Inl (Error ''unreadable root''))) 1 None) =
     [Call_initializeParser, Call_fromPath, Call_fromRoot]
   \<and> fst (onDefinition_handler (register example_env example_Analyzer example_server 2)
            (example_params 5)) = [''declaration of extract'']
   \<and> fst (onWorkspaceSymbol_handler (register example_env example_Analyzer example_server 2)
            (WorkspaceSymbolParams ''ex'')) =
       [SymbolInformation ''extract'' SymbolKind_Function ''file:///a.sh'']"
proof -
  let ?S = "example_startup (Inr ''grammar'') (Inr example_executables) (Inr [])"
  let ?S1 = "example_startup (Inl (Error ''no grammar'')) (Inr example_executables) (Inr [])"
  let ?S3 = "example_startup (Inr ''grammar'') (Inr example_executables)
               (Inl (Error ''unreadable root''))"
  note c2 = initialize_constructs_last [where S = ?S and c = 1 and root = None
      and E = example_env and A = example_Analyzer and c' = 2]
  note c2_1 = initialize_constructs_last [where S = ?S1 and c = 1 and root = None
      and E = example_env and A = example_Analyzer and c' = 2]
  note c2_3 = initialize_constructs_last [where S = ?S3 and c = 1 and root = None
      and E = example_env and A = example_Analyzer and c' = 2]
  have resolved: "initializeParser ?S = Inr ''grammar''"
    "Executables_fromPath ?S (PATH ?S) = Inr example_executables"
    "Analyzer_fromRoot ?S 1 None ''grammar'' = Inr []"
    and server: "example_server =
      \<lparr>executables = example_executables, analyzer = [], connection = 1\<rparr>"
    by (simp_all add: example_startup_def example_server_def new_BashServer_def)
  from resolved server c2 [THEN conjunct1]
  have result: "fst (initialize ?S 1 None) = Inr example_server"
    by blast
  with c2 [THEN conjunct2, THEN conjunct2, THEN conjunct1]
  have steps: "snd (initialize ?S 1 None) =
      [Call_initializeParser, Call_fromPath, Call_fromRoot, Construct_BashServer]"
    by blast
  have "\<exists>e. initializeParser ?S1 = Inl e"
    by (simp add: example_startup_def)
  with c2_1 [THEN conjunct2, THEN conjunct2, THEN conjunct2, THEN conjunct2, THEN conjunct1]
  have steps1: "snd (initialize ?S1 1 None) = [Call_initializeParser]"
    by blast
  have "(\<exists>p. initializeParser ?S3 = Inr p) \<and> (\<exists>e. fst (initialize ?S3 1 None) = Inl e)"
    by (simp add: initialize_cases example_startup_def)
  with c2_3 [THEN conjunct2, THEN conjunct2, THEN conjunct2, THEN conjunct2, THEN conjunct2,
      THEN conjunct1]
  have steps3: "snd (initialize ?S3 1 None) = [Call_initializeParser, Call_fromPath, Call_fromRoot]"
    by blast
  note registered = c2 [THEN conjunct2, THEN conjunct2, THEN conjunct2, THEN conjunct2,
      THEN conjunct2, THEN conjunct2, rule_format,
      OF conjI [OF result conjI [OF resolved(1) conjI [OF resolved(2) resolved(3)]]]]
  have "fst (onDefinition_handler (register example_env example_Analyzer example_server 2)
            (example_params 5)) =
       findDefinition example_Analyzer []
         (wordAtPoint example_Analyzer [] (uri (textDocument (example_params 5)))
            (line (position (example_params 5))) (character (position (example_params 5))))"
    using registered [THEN conjunct2, THEN conjunct2, THEN conjunct1, THEN spec,
        of "example_params 5"]
    by (rule conjunct1)
  then have on_definition:
    "fst (onDefinition_handler (register example_env example_Analyzer example_server 2)
            (example_params 5)) = [''declaration of extract'']"
    by (simp add: example_Analyzer_def example_params_def)
  have "fst (onWorkspaceSymbol_handler (register example_env example_Analyzer example_server 2)
            (WorkspaceSymbolParams ''ex'')) = search example_Analyzer [] ''ex''"
    using registered [THEN conjunct2, THEN conjunct2, THEN conjunct2, THEN conjunct2,
        THEN conjunct1]
    by (rule spec)
  then have on_search:
    "fst (onWorkspaceSymbol_handler (register example_env example_Analyzer example_server 2)
            (WorkspaceSymbolParams ''ex'')) =
       [SymbolInformation ''extract'' SymbolKind_Function ''file:///a.sh'']"
    by (simp add: example_Analyzer_def)
  from result steps steps1 steps3 on_definition on_search show ?thesis
    by (intro conjI)
qed

text \<open>
  Claim C5. If the grammar initialisation, the PATH scan or the workspace scan rejects,
  \<^verbatim>\<open>initialize\<close> rejects, with the error of one of the failed steps, and constructs no
  \<^verbatim>\<open>BashServer\<close>.
\<close>

theorem initialize_rejects_on_failure:
  fixes S :: "('p, 'a) startup" and c :: conn and root :: "string option"
  assumes "(\<exists>e. initializeParser S = Inl e)
         \<or> (\<exists>e. Executables_fromPath S (PATH S) = Inl e)
         \<or> (\<exists>p e. initializeParser S = Inr p \<and> Analyzer_fromRoot S c root p = Inl e)"
  shows "(\<exists>e. fst (initialize S c root) = Inl e
             \<and> (initializeParser S = Inl e
                \<or> Executables_fromPath S (PATH S) = Inl e
                \<or> (\<exists>p. initializeParser S = Inr p \<and> Analyzer_fromRoot S c root p = Inl e)))
       \<and> Construct_BashServer \<notin> set (snd (initialize S c root))"
  using assms unfolding initialize_cases
  by (auto split: sum.splits settle_order.splits)

theorem initialize_rejects_on_failure_witness:
  "fst (initialize (example_startup (Inl (Error ''no grammar'')) (Inr example_executables) (Inr []))
          1 None) = Inl (Error ''no grammar'')
   \<and> fst (initialize (example_startup (Inr ''grammar'') (Inl (Error ''no PATH'')) (Inr []))
          1 None) = Inl (Error ''no PATH'')
   \<and> fst (initialize (example_startup (Inr ''grammar'') (Inr example_executables)
                        (Inl (Error ''unreadable root''))) 1 None) = Inl (Error ''unreadable root'')
   \<and> Construct_BashServer \<notin> set (snd (initialize
         (example_startup (Inr ''grammar'') (Inr example_executables)
            (Inl (Error ''unreadable root''))) 1 None))"
proof -
  let ?S1 = "example_startup (Inl (Error ''no grammar'')) (Inr example_executables) (Inr [])"
  let ?S2 = "example_startup (Inr ''grammar'') (Inl (Error ''no PATH'')) (Inr [])"
  let ?S3 = "example_startup (Inr ''grammar'') (Inr example_executables)
               (Inl (Error ''unreadable root''))"
  have h1: "(\<exists>e. initializeParser ?S1 = Inl e)
         \<or> (\<exists>e. Executables_fromPath ?S1 (PATH ?S1) = Inl e)
         \<or> (\<exists>p e. initializeParser ?S1 = Inr p \<and> Analyzer_fromRoot ?S1 1 None p = Inl e)"
    by (simp add: example_startup_def)
  have h2: "(\<exists>e. initializeParser ?S2 = Inl e)
         \<or> (\<exists>e. Executables_fromPath ?S2 (PATH ?S2) = Inl e)
         \<or> (\<exists>p e. initializeParser ?S2 = Inr p \<and> Analyzer_fromRoot ?S2 1 None p = Inl e)"
    by (simp add: example_startup_def)
  have h3: "(\<exists>e. initializeParser ?S3 = Inl e)
         \<or> (\<exists>e. Executables_fromPath ?S3 (PATH ?S3) = Inl e)
         \<or> (\<exists>p e. initializeParser ?S3 = Inr p \<and> Analyzer_fromRoot ?S3 1 None p = Inl e)"
    by (simp add: example_startup_def)
  have "fst (initialize ?S1 1 None) = Inl (Error ''no grammar'')"
    using initialize_rejects_on_failure [OF h1] by (auto simp: example_startup_def)
  moreover have "fst (initialize ?S2 1 None) = Inl (Error ''no PATH'')"
    using initialize_rejects_on_failure [OF h2] by (auto simp: example_startup_def)
  moreover have "fst (initialize ?S3 1 None) = Inl (Error ''unreadable root'')"
    using initialize_rejects_on_failure [OF h3] by (auto simp: example_startup_def)
  moreover have "Construct_BashServer \<notin> set (snd (initialize ?S3 1 None))"
    using initialize_rejects_on_failure [OF h3] by blast
  ultimately show ?thesis
    by blast
qed

subsection \<open>Hover\<close>

lemma onHover_no_endpoint:
  "\<not> truthy (getExplainshellEndpoint E) \<Longrightarrow>
   onHover E A this params =
     (onHover_lookups E this (getWordAtPoint A this params),
      [logRequest this ''onHover'' params (getWordAtPoint A this params)])"
  by (cases "getExplainshellEndpoint E") (simp_all add: onHover_def Let_def)

lemma onHover_endpoint_error:
  assumes "getExplainshellEndpoint E = Some e" and "e \<noteq> []"
    and "getExplainshellDocumentation A (analyzer this) params e = Inr r"
    and "status r = ''error''"
  shows "onHover E A this params =
     (onHover_lookups E this (getWordAtPoint A this params),
      [logRequest this ''onHover'' params (getWordAtPoint A this params),
       ConsoleLog (connection this) (''Query '' @ e),
       ConsoleLog (connection this)
         (''getExplainshellDocumentation returned: '' @ JSON_stringify E r)])"
  using assms by (simp add: onHover_def Let_def)

lemma onHover_endpoint_ok:
  assumes "getExplainshellEndpoint E = Some e" and "e \<noteq> []"
    and "getExplainshellDocumentation A (analyzer this) params e = Inr r"
    and "status r \<noteq> ''error''"
  shows "onHover E A this params =
     (Inr (Some \<lparr>contents = \<lparr>markup_content.kind = ''markdown'',
                             value = turndown E (helpHTML r)\<rparr>\<rparr>),
      [logRequest this ''onHover'' params (getWordAtPoint A this params),
       ConsoleLog (connection this) (''Query '' @ e)])"
  using assms by (simp add: onHover_def Let_def)

text \<open>
  Claim C9, as amended. When the explainshell step returns no hover (no endpoint is
  configured, the endpoint is the empty string, or the response has status \<open>error\<close>),
  \<^verbatim>\<open>onHover\<close> resolves documentation with a fixed precedence: the builtin documentation
  when the cursor word is a builtin, otherwise the reserved-word documentation when it is a
  reserved word, otherwise the executable's documentation when it is on PATH; when the
  word is none of these (a null word included), \<^verbatim>\<open>onHover\<close> returns null and no error.
  The first source that applies decides alone: its documentation is returned when its
  lookup resolves, and when its lookup rejects \<^verbatim>\<open>onHover\<close> rejects with the same error,
  without trying a later source.
\<close>

theorem onHover_precedence:
  fixes E :: env and A :: "('a, 'd, 'g, 'l, 'o) Analyzer" and this :: "'a BashServer"
    and params :: text_document_position_params
  defines "word \<equiv> wordAtPoint A (analyzer this) (uri (textDocument params))
                     (line (position params)) (character (position params))"
  defines "result \<equiv> fst (onHover E A this params)"
  defines "shown \<equiv> \<lambda>doc.
     Inr (Some \<lparr>contents = \<lparr>markup_content.kind = ''markdown'',
                            value = ''``` man'' @ [CHR 0x0A] @ doc @ [CHR 0x0A] @ ''```''\<rparr>\<rparr>)"
  assumes no_explainshell_hover:
    "getExplainshellEndpoint E = None \<or> getExplainshellEndpoint E = Some []
     \<or> (\<exists>e r. getExplainshellEndpoint E = Some e
              \<and> getExplainshellDocumentation A (analyzer this) params e = Inr r
              \<and> status r = ''error'')"
  shows "(Builtins_isBuiltin E word \<longrightarrow>
            (\<forall>doc. Builtins_documentation E word = Inr doc \<longrightarrow> result = shown doc)
            \<and> (\<forall>e. Builtins_documentation E word = Inl e \<longrightarrow> result = Inl e))
       \<and> (\<not> Builtins_isBuiltin E word \<and> ReservedWords_isReservedWord E word \<longrightarrow>
            (\<forall>doc. ReservedWords_documentation E word = Inr doc \<longrightarrow> result = shown doc)
            \<and> (\<forall>e. ReservedWords_documentation E word = Inl e \<longrightarrow> result = Inl e))
       \<and> (\<not> Builtins_isBuiltin E word \<and> \<not> ReservedWords_isReservedWord E word
          \<and> isExecutableOnPATH (executables this) word \<longrightarrow>
            (\<forall>doc. executables.documentation (executables this) word = Inr doc \<longrightarrow>
                     result = shown doc)
            \<and> (\<forall>e. executables.documentation (executables this) word = Inl e \<longrightarrow>
                     result = Inl e))
       \<and> (\<not> Builtins_isBuiltin E word \<and> \<not> ReservedWords_isReservedWord E word
          \<and> \<not> isExecutableOnPATH (executables this) word \<longrightarrow> result = Inr None)"
proof -
  have "result = onHover_lookups E this word"
  proof (cases "truthy (getExplainshellEndpoint E)")
    case False
    then show ?thesis
      unfolding result_def word_def by (simp add: onHover_no_endpoint getWordAtPoint_def)
  next
    case True
    with no_explainshell_hover obtain e r where
      "getExplainshellEndpoint E = Some e" "e \<noteq> []"
      "getExplainshellDocumentation A (analyzer this) params e = Inr r" "status r = ''error''"
      by auto
    then show ?thesis
      unfolding result_def word_def by (simp add: onHover_endpoint_error getWordAtPoint_def)
  qed
  then show ?thesis
    unfolding shown_def
    by (simp add: onHover_lookups_def promise_then_def getMarkdownHoverItem_def)
qed

theorem onHover_precedence_witness:
  "fst (onHover example_env example_Analyzer example_server (example_params 0)) =
     Inr (Some \<lparr>contents = \<lparr>markup_content.kind = ''markdown'',
        value = ''``` man'' @ [CHR 0x0A] @ ''echo: write arguments'' @ [CHR 0x0A] @ ''```''\<rparr>\<rparr>)
   \<and> fst (onHover example_env example_Analyzer example_server (example_params 3)) =
     Inr (Some \<lparr>contents = \<lparr>markup_content.kind = ''markdown'',
        value = ''``` man'' @ [CHR 0x0A] @ ''if: conditional'' @ [CHR 0x0A] @ ''```''\<rparr>\<rparr>)
   \<and> fst (onHover example_env example_Analyzer example_server (example_params 2)) =
     Inr (Some \<lparr>contents = \<lparr>markup_content.kind = ''markdown'',
        value = ''``` man'' @ [CHR 0x0A] @ ''ls - list directory contents'' @ [CHR 0x0A] @
                ''```''\<rparr>\<rparr>)
   \<and> fst (onHover example_env example_Analyzer example_server (example_params 9)) = Inr None
   \<and> fst (onHover (example_env_explainshell ''bad'') example_Analyzer example_server
            (example_params 9)) = Inr None
   \<and> fst (onHover example_env example_Analyzer example_server (example_params 6)) =
       Inl (Error ''no help topic'')"
proof -
  note c9 = onHover_precedence [where A = example_Analyzer and this = example_server]
  have none: "getExplainshellEndpoint example_env = None
     \<or> getExplainshellEndpoint example_env = Some []
     \<or> (\<exists>e r. getExplainshellEndpoint example_env = Some e
              \<and> getExplainshellDocumentation example_Analyzer (analyzer example_server) ps e = Inr r
              \<and> status r = ''error'')" for ps
    by (simp add: example_env_def)
  have bad: "getExplainshellEndpoint (example_env_explainshell ''bad'') = None
     \<or> getExplainshellEndpoint (example_env_explainshell ''bad'') = Some []
     \<or> (\<exists>e r. getExplainshellEndpoint (example_env_explainshell ''bad'') = Some e
              \<and> getExplainshellDocumentation example_Analyzer (analyzer example_server)
                   (example_params 9) e = Inr r
              \<and> status r = ''error'')"
    by (simp add: example_env_explainshell_def example_Analyzer_def)
  have w: "wordAtPoint example_Analyzer (analyzer example_server)
             (uri (textDocument (example_params l))) (line (position (example_params l)))
             (character (position (example_params l))) =
           (if l = 0 then Some ''echo'' else if l = 1 then Some ''#note''
            else if l = 2 then Some ''ls'' else if l = 3 then Some ''if''
            else if l = 4 then Some ''e'' else if l = 5 then Some ''extract''
            else if l = 6 then Some ''cd'' else None)" for l
    by (simp add: example_Analyzer_def example_params_def)
  have "Builtins_isBuiltin example_env (Some ''echo'')
      \<and> Builtins_documentation example_env (Some ''echo'') = Inr ''echo: write arguments''"
    by (simp add: example_env_def)
  with c9 [OF none, of "example_params 0"] have echo:
    "fst (onHover example_env example_Analyzer example_server (example_params 0)) =
     Inr (Some \<lparr>contents = \<lparr>markup_content.kind = ''markdown'',
        value = ''``` man'' @ [CHR 0x0A] @ ''echo: write arguments'' @ [CHR 0x0A] @ ''```''\<rparr>\<rparr>)"
    unfolding w by simp
  have "\<not> Builtins_isBuiltin example_env (Some ''if'')
      \<and> ReservedWords_isReservedWord example_env (Some ''if'')
      \<and> ReservedWords_documentation example_env (Some ''if'') = Inr ''if: conditional''"
    by (simp add: example_env_def)
  with c9 [OF none, of "example_params 3"] have if':
    "fst (onHover example_env example_Analyzer example_server (example_params 3)) =
     Inr (Some \<lparr>contents = \<lparr>markup_content.kind = ''markdown'',
        value = ''``` man'' @ [CHR 0x0A] @ ''if: conditional'' @ [CHR 0x0A] @ ''```''\<rparr>\<rparr>)"
    unfolding w by simp
  have "\<not> Builtins_isBuiltin example_env (Some ''ls'')
      \<and> \<not> ReservedWords_isReservedWord example_env (Some ''ls'')
      \<and> isExecutableOnPATH (executables example_server) (Some ''ls'')
      \<and> executables.documentation (executables example_server) (Some ''ls'') =
          Inr ''ls - list directory contents''"
    by (simp add: example_env_def example_server_def new_BashServer_def example_executables_def)
  with c9 [OF none, of "example_params 2"] have ls:
    "fst (onHover example_env example_Analyzer example_server (example_params 2)) =
     Inr (Some \<lparr>contents = \<lparr>markup_content.kind = ''markdown'',
        value = ''``` man'' @ [CHR 0x0A] @ ''ls - list directory contents'' @ [CHR 0x0A] @
                ''```''\<rparr>\<rparr>)"
    unfolding w by simp
  have null: "\<not> Builtins_isBuiltin example_env None
      \<and> \<not> ReservedWords_isReservedWord example_env None
      \<and> \<not> isExecutableOnPATH (executables example_server) None"
    by (simp add: example_env_def example_server_def new_BashServer_def example_executables_def)
  with c9 [OF none, of "example_params 9"] have null1:
    "fst (onHover example_env example_Analyzer example_server (example_params 9)) = Inr None"
    unfolding w by simp
  from null have "\<not> Builtins_isBuiltin (example_env_explainshell ''bad'') None
      \<and> \<not> ReservedWords_isReservedWord (example_env_explainshell ''bad'') None
      \<and> \<not> isExecutableOnPATH (executables example_server) None"
    by (simp add: example_env_explainshell_def)
  with c9 [OF bad] have
    "fst (onHover (example_env_explainshell ''bad'') example_Analyzer example_server
            (example_params 9)) = Inr None"
    unfolding w by simp
  moreover
  have "Builtins_isBuiltin example_env (Some ''cd'')
      \<and> Builtins_documentation example_env (Some ''cd'') = Inl (Error ''no help topic'')"
    by (simp add: example_env_def)
  with c9 [OF none, of "example_params 6"] have
    "fst (onHover example_env example_Analyzer example_server (example_params 6)) =
       Inl (Error ''no help topic'')"
    unfolding w by simp
  ultimately show ?thesis
    using echo if' ls null1 by blast
qed

text \<open>
  Claim C9 as it was stated does not hold when explainshell answers: with an endpoint whose
  response is not an error, the hover for the builtin \<open>echo\<close> is the explainshell text, not
  the builtin documentation.
\<close>

theorem onHover_builtin_first_counterexample:
  "getExplainshellEndpoint (example_env_explainshell ''good'') = Some ''good''
   \<and> getWordAtPoint example_Analyzer example_server (example_params 0) = Some ''echo''
   \<and> Builtins_isBuiltin (example_env_explainshell ''good'') (Some ''echo'')
   \<and> Builtins_documentation (example_env_explainshell ''good'') (Some ''echo'') =
       Inr ''echo: write arguments''
   \<and> fst (onHover (example_env_explainshell ''good'') example_Analyzer example_server
            (example_params 0)) =
       Inr (Some \<lparr>contents = \<lparr>markup_content.kind = ''markdown'', value = ''echo(1)''\<rparr>\<rparr>)
   \<and> fst (onHover (example_env_explainshell ''good'') example_Analyzer example_server
            (example_params 0)) \<noteq>
       Inr (Some \<lparr>contents = getMarkdownHoverItem ''echo: write arguments''\<rparr>)"
  by (simp add: onHover_def Let_def getWordAtPoint_def example_env_explainshell_def
      getMarkdownHoverItem_def example_defs)

text \<open>
  Claim C10. With an explainshell endpoint configured, a response of status \<open>error\<close>
  neither fails \<^verbatim>\<open>onHover\<close> nor ends it early: the response is logged, and the result is
  the one the builtin, reserved-word and executable lookups give (the result of the same
  request with no endpoint configured). The hover made from the explainshell response is
  returned only for a response whose status is not \<open>error\<close>.
\<close>

theorem onHover_explainshell_error_falls_through:
  fixes E :: env and A :: "('a, 'd, 'g, 'l, 'o) Analyzer" and this :: "'a BashServer"
    and params :: text_document_position_params
  assumes "getExplainshellEndpoint E = Some e" and "e \<noteq> []"
    and "getExplainshellDocumentation A (analyzer this) params e = Inr response"
  shows "(status response = ''error'' \<longrightarrow>
            fst (onHover E A this params) =
              onHover_lookups E this
                (wordAtPoint A (analyzer this) (uri (textDocument params))
                   (line (position params)) (character (position params)))
            \<and> fst (onHover E A this params) =
                fst (onHover (E\<lparr>getExplainshellEndpoint := None\<rparr>) A this params)
            \<and> snd (onHover E A this params) =
                snd (onHover (E\<lparr>getExplainshellEndpoint := None\<rparr>) A this params) @
                [ConsoleLog (connection this) (''Query '' @ e),
                 ConsoleLog (connection this)
                   (''getExplainshellDocumentation returned: '' @ JSON_stringify E response)])
       \<and> (status response \<noteq> ''error'' \<longrightarrow>
            fst (onHover E A this params) =
              Inr (Some \<lparr>contents = \<lparr>markup_content.kind = ''markdown'',
                                     value = turndown E (helpHTML response)\<rparr>\<rparr>))"
proof -
  have "onHover_lookups (E\<lparr>getExplainshellEndpoint := None\<rparr>) this w = onHover_lookups E this w"
    for w
    by (simp add: onHover_lookups_def)
  with assms show ?thesis
    by (simp add: onHover_endpoint_error onHover_endpoint_ok onHover_no_endpoint
        getWordAtPoint_def)
qed

theorem onHover_explainshell_error_falls_through_witness:
  "fst (onHover (example_env_explainshell ''bad'') example_Analyzer example_server
          (example_params 0)) =
     Inr (Some \<lparr>contents = getMarkdownHoverItem ''echo: write arguments''\<rparr>)
   \<and> last (snd (onHover (example_env_explainshell ''bad'') example_Analyzer example_server
                  (example_params 0))) =
     ConsoleLog 1 ''getExplainshellDocumentation returned: error''
   \<and> fst (onHover (example_env_explainshell ''good'') example_Analyzer example_server
            (example_params 0)) =
     Inr (Some \<lparr>contents = \<lparr>markup_content.kind = ''markdown'', value = ''echo(1)''\<rparr>\<rparr>)"
proof -
  let ?bad = "example_env_explainshell ''bad''" and ?good = "example_env_explainshell ''good''"
  let ?error = "\<lparr>status = ''error'', helpHTML = []\<rparr>"
  let ?ok = "\<lparr>status = ''ok'', helpHTML = ''echo(1)''\<rparr>"
  have bad: "getExplainshellEndpoint ?bad = Some ''bad''" "''bad'' \<noteq> []"
    "getExplainshellDocumentation example_Analyzer (analyzer example_server) (example_params 0)
       ''bad'' = Inr ?error"
    by (simp_all add: example_env_explainshell_def example_Analyzer_def)
  have good: "getExplainshellEndpoint ?good = Some ''good''" "''good'' \<noteq> []"
    "getExplainshellDocumentation example_Analyzer (analyzer example_server) (example_params 0)
       ''good'' = Inr ?ok"
    by (simp_all add: example_env_explainshell_def example_Analyzer_def)
  have unconfigured: "?bad\<lparr>getExplainshellEndpoint := None\<rparr> = example_env"
    by (simp add: example_env_explainshell_def example_env_def)
  have error: "status ?error = ''error''" and ok: "status ?ok \<noteq> ''error''"
    by simp_all
  from onHover_explainshell_error_falls_through [OF bad] error have
    fall: "fst (onHover ?bad example_Analyzer example_server (example_params 0)) =
       fst (onHover example_env example_Analyzer example_server (example_params 0))"
    and log: "snd (onHover ?bad example_Analyzer example_server (example_params 0)) =
       snd (onHover example_env example_Analyzer example_server (example_params 0)) @
       [ConsoleLog (connection example_server) (''Query '' @ ''bad''),
        ConsoleLog (connection example_server)
          (''getExplainshellDocumentation returned: '' @ JSON_stringify ?bad ?error)]"
    unfolding unconfigured by blast+
  have "fst (onHover example_env example_Analyzer example_server (example_params 0)) =
       Inr (Some \<lparr>contents = getMarkdownHoverItem ''echo: write arguments''\<rparr>)"
    by (simp add: onHover_def Let_def getWordAtPoint_def onHover_lookups_def promise_then_def
        example_env_def example_Analyzer_def example_params_def)
  with fall have first: "fst (onHover ?bad example_Analyzer example_server (example_params 0)) =
       Inr (Some \<lparr>contents = getMarkdownHoverItem ''echo: write arguments''\<rparr>)"
    by (rule trans)
  from log have second:
    "last (snd (onHover ?bad example_Analyzer example_server (example_params 0))) =
       ConsoleLog 1 ''getExplainshellDocumentation returned: error''"
    by (simp add: example_env_explainshell_def example_env_def example_server_def
        new_BashServer_def)
  from onHover_explainshell_error_falls_through [OF good] ok have
    "fst (onHover ?good example_Analyzer example_server (example_params 0)) =
       Inr (Some \<lparr>contents = \<lparr>markup_content.kind = ''markdown'',
                              value = turndown ?good (helpHTML ?ok)\<rparr>\<rparr>)"
    by blast
  then have third: "fst (onHover ?good example_Analyzer example_server (example_params 0)) =
       Inr (Some \<lparr>contents = \<lparr>markup_content.kind = ''markdown'', value = ''echo(1)''\<rparr>\<rparr>)"
    by (simp add: example_env_explainshell_def example_env_def)
  from first second third show ?thesis
    by blast
qed

end
